theory Spec2Isabelle
  imports Main "HOL-Library.AList"
begin

section \<open>Data model of the socket server\<close>

text \<open>
  The broker keeps its rooms in JavaScript \<^verbatim>\<open>Map\<close>s and \<^verbatim>\<open>Set\<close>s. Both iterate in
  insertion order, so a \<^verbatim>\<open>Map\<close> is an association list (\<open>map_of\<close> is \<^verbatim>\<open>get\<close>,
  \<open>AList.update\<close> is \<^verbatim>\<open>set\<close>: it overwrites in place or appends, \<open>AList.delete\<close> is
  \<^verbatim>\<open>delete\<close>) and a \<^verbatim>\<open>Set\<close> is a list without repetitions.

  The source mutates a room object in place; here the registry entry of the room is
  overwritten with the changed room, at its position.

  Event payloads are JSON values. \<^verbatim>\<open>Date.now()\<close> is the parameter \<open>now\<close> of every
  operation that reads the clock. Calls of the logger have no effect on the state or
  on what is sent, and are left out.
\<close>

datatype json =
    JNull
  | JBool bool
  | JNum int
  | JStr string
  | JArr "json list"
  | JObj "(string \<times> json) list"

text \<open>\<^verbatim>\<open>interface UserPresence\<close> of \<^verbatim>\<open>rooms/manager.ts\<close>. The role is declared a string,
  but \<^verbatim>\<open>handlePermissionChange\<close> stores its \<^verbatim>\<open>newRole: string | null\<close> there, so
  \<open>None\<close> is \<^verbatim>\<open>null\<close>.\<close>

record UserPresence =
  p_userId :: string
  p_workflowId :: string
  p_userName :: string
  p_socketId :: string
  p_joinedAt :: int
  p_lastActivity :: int
  p_role :: "string option"
  p_cursor :: "(int \<times> int) option"
  p_selection :: "(string \<times> string option) option"
  p_avatarUrl :: "string option"

record WorkflowRoom =
  wf_workflowId :: string
  wf_users :: "(string \<times> UserPresence) list"
  wf_lastModified :: int
  wf_activeConnections :: int

record WorkspaceRoom =
  ws_workspaceId :: string
  ws_users :: "string list"
  ws_lastModified :: int
  ws_activeConnections :: int

record UserSession =
  us_userId :: string
  us_userName :: string
  us_avatarUrl :: "string option"

text \<open>
  \<^verbatim>\<open>class RoomManager\<close>: its five maps, and the part of the Socket.IO server \<^verbatim>\<open>io\<close> that
  the code reads and writes: \<open>io_sockets\<close> are the ids in \<^verbatim>\<open>io.sockets.sockets\<close> (the
  sockets that are connected), \<open>io_rooms\<close> the pairs (socket id, room name) made by
  \<^verbatim>\<open>socket.join\<close> and removed by \<^verbatim>\<open>socket.leave\<close>.
\<close>

record RoomManager =
  workflowRooms :: "(string \<times> WorkflowRoom) list"
  workspaceRooms :: "(string \<times> WorkspaceRoom) list"
  socketToWorkflow :: "(string \<times> string) list"
  socketToWorkspace :: "(string \<times> (string \<times> string)) list"
  userSessions :: "(string \<times> UserSession) list"
  io_sockets :: "string list"
  io_rooms :: "(string \<times> string) list"

text \<open>What the server sends: \<^verbatim>\<open>io.to(room).emit(event, payload)\<close> and
  \<^verbatim>\<open>socket.emit(event, payload)\<close>.\<close>

datatype emission =
    ToRoom string string json
  | ToSocket string string json

definition set_add :: "'a \<Rightarrow> 'a list \<Rightarrow> 'a list" where
  "set_add x xs = (if x \<in> set xs then xs else xs @ [x])"

definition socket_join :: "string \<Rightarrow> string \<Rightarrow> RoomManager \<Rightarrow> RoomManager" where
  "socket_join socketId room m = m\<lparr>io_rooms := set_add (socketId, room) (io_rooms m)\<rparr>"

definition socket_leave :: "string \<Rightarrow> string \<Rightarrow> RoomManager \<Rightarrow> RoomManager" where
  "socket_leave socketId room m = m\<lparr>io_rooms := removeAll (socketId, room) (io_rooms m)\<rparr>"

definition presence_json :: "UserPresence \<Rightarrow> json" where
  "presence_json p = JObj (
     [(''userId'', JStr (p_userId p)),
      (''workflowId'', JStr (p_workflowId p)),
      (''userName'', JStr (p_userName p)),
      (''socketId'', JStr (p_socketId p)),
      (''joinedAt'', JNum (p_joinedAt p)),
      (''lastActivity'', JNum (p_lastActivity p)),
      (''role'', (case p_role p of None \<Rightarrow> JNull | Some r \<Rightarrow> JStr r))]
     @ (case p_cursor p of None \<Rightarrow> []
        | Some (x, y) \<Rightarrow> [(''cursor'', JObj [(''x'', JNum x), (''y'', JNum y)])])
     @ (case p_selection p of None \<Rightarrow> []
        | Some (t, i) \<Rightarrow> [(''selection'', JObj ((''type'', JStr t)
            # (case i of None \<Rightarrow> [] | Some b \<Rightarrow> [(''id'', JStr b)])))])
     @ (case p_avatarUrl p of None \<Rightarrow> [] | Some a \<Rightarrow> [(''avatarUrl'', JStr a)]))"

section \<open>Workflow rooms (\<^verbatim>\<open>rooms/manager.ts\<close>)\<close>

definition createWorkflowRoom :: "string \<Rightarrow> int \<Rightarrow> WorkflowRoom" where
  "createWorkflowRoom workflowId now =
     \<lparr>wf_workflowId = workflowId, wf_users = [], wf_lastModified = now,
      wf_activeConnections = 0\<rparr>"

definition cleanupUserFromRoom :: "string \<Rightarrow> string \<Rightarrow> RoomManager \<Rightarrow> RoomManager" where
  "cleanupUserFromRoom socketId workflowId m =
     (let m1 =
        (case map_of (workflowRooms m) workflowId of
           None \<Rightarrow> m
         | Some room \<Rightarrow>
             (let room' = room\<lparr>wf_users := AList.delete socketId (wf_users room),
                               wf_activeConnections := max 0 (wf_activeConnections room - 1)\<rparr>
              in if wf_activeConnections room' = 0
                 then m\<lparr>workflowRooms := AList.delete workflowId (workflowRooms m)\<rparr>
                 else m\<lparr>workflowRooms := AList.update workflowId room' (workflowRooms m)\<rparr>))
      in m1\<lparr>socketToWorkflow := AList.delete socketId (socketToWorkflow m1),
             userSessions := AList.delete socketId (userSessions m1)\<rparr>)"

text \<open>The body of the \<^verbatim>\<open>socketsToDisconnect.forEach\<close> of \<^verbatim>\<open>handleWorkflowDeletion\<close>.\<close>

definition disconnectFromDeleted :: "string \<Rightarrow> string \<Rightarrow> RoomManager \<Rightarrow> RoomManager" where
  "disconnectFromDeleted workflowId socketId m =
     cleanupUserFromRoom socketId workflowId
       (if socketId \<in> set (io_sockets m) then socket_leave socketId workflowId m else m)"

definition handleWorkflowDeletion ::
  "string \<Rightarrow> int \<Rightarrow> RoomManager \<Rightarrow> RoomManager \<times> emission list" where
  "handleWorkflowDeletion workflowId now m =
     (case map_of (workflowRooms m) workflowId of
        None \<Rightarrow> (m, [])
      | Some room \<Rightarrow>
          (let socketsToDisconnect = map fst (wf_users room);
               m' = fold (disconnectFromDeleted workflowId) socketsToDisconnect m
           in (m'\<lparr>workflowRooms := AList.delete workflowId (workflowRooms m')\<rparr>,
               [ToRoom workflowId ''workflow-deleted''
                  (JObj [(''workflowId'', JStr workflowId),
                         (''message'', JStr ''This workflow has been deleted''),
                         (''timestamp'', JNum now)])])))"

definition handleWorkflowRevert ::
  "string \<Rightarrow> int \<Rightarrow> RoomManager \<Rightarrow> RoomManager \<times> emission list" where
  "handleWorkflowRevert workflowId timestamp m =
     (case map_of (workflowRooms m) workflowId of
        None \<Rightarrow> (m, [])
      | Some room \<Rightarrow>
          (m\<lparr>workflowRooms :=
               AList.update workflowId (room\<lparr>wf_lastModified := timestamp\<rparr>) (workflowRooms m)\<rparr>,
           [ToRoom workflowId ''workflow-reverted''
              (JObj [(''workflowId'', JStr workflowId),
                     (''message'', JStr ''Workflow has been reverted to deployed state''),
                     (''timestamp'', JNum timestamp)])]))"

definition handleWorkflowUpdate ::
  "string \<Rightarrow> int \<Rightarrow> RoomManager \<Rightarrow> RoomManager \<times> emission list" where
  "handleWorkflowUpdate workflowId now m =
     (case map_of (workflowRooms m) workflowId of
        None \<Rightarrow> (m, [])
      | Some room \<Rightarrow>
          (m\<lparr>workflowRooms :=
               AList.update workflowId (room\<lparr>wf_lastModified := now\<rparr>) (workflowRooms m)\<rparr>,
           [ToRoom workflowId ''workflow-updated''
              (JObj [(''workflowId'', JStr workflowId),
                     (''message'', JStr ''Workflow has been updated externally''),
                     (''timestamp'', JNum now)])]))"

definition handleCopilotWorkflowEdit ::
  "string \<Rightarrow> string option \<Rightarrow> int \<Rightarrow> RoomManager \<Rightarrow> RoomManager \<times> emission list" where
  "handleCopilotWorkflowEdit workflowId description now m =
     (case map_of (workflowRooms m) workflowId of
        None \<Rightarrow> (m, [])
      | Some room \<Rightarrow>
          (m\<lparr>workflowRooms :=
               AList.update workflowId (room\<lparr>wf_lastModified := now\<rparr>) (workflowRooms m)\<rparr>,
           [ToRoom workflowId ''copilot-workflow-edit''
              (JObj ([(''workflowId'', JStr workflowId)]
                     @ (case description of None \<Rightarrow> [] | Some d \<Rightarrow> [(''description'', JStr d)])
                     @ [(''message'',
                           JStr ''Copilot has edited the workflow - rehydrating from database''),
                        (''timestamp'', JNum now)]))]))"

definition broadcastPresenceUpdate :: "string \<Rightarrow> RoomManager \<Rightarrow> emission list" where
  "broadcastPresenceUpdate workflowId m =
     (case map_of (workflowRooms m) workflowId of
        None \<Rightarrow> []
      | Some room \<Rightarrow>
          [ToRoom workflowId ''presence-update''
             (JArr (map (presence_json \<circ> snd) (wf_users room)))])"

definition getTotalActiveConnections :: "RoomManager \<Rightarrow> int" where
  "getTotalActiveConnections m =
     foldl (\<lambda>total room. total + wf_activeConnections room) 0 (map snd (workflowRooms m))"

section \<open>Workspace rooms and the resource fan-out (\<^verbatim>\<open>rooms/manager.ts\<close>)\<close>

definition createWorkspaceRoom :: "string \<Rightarrow> int \<Rightarrow> WorkspaceRoom" where
  "createWorkspaceRoom workspaceId now =
     \<lparr>ws_workspaceId = workspaceId, ws_users = [], ws_lastModified = now,
      ws_activeConnections = 0\<rparr>"

definition cleanupUserFromWorkspaceRoom ::
  "string \<Rightarrow> string \<Rightarrow> RoomManager \<Rightarrow> RoomManager" where
  "cleanupUserFromWorkspaceRoom socketId workspaceId m =
     (let m1 =
        (case map_of (workspaceRooms m) workspaceId of
           None \<Rightarrow> m
         | Some room \<Rightarrow>
             (let room' = room\<lparr>ws_users := removeAll socketId (ws_users room),
                               ws_activeConnections := max 0 (ws_activeConnections room - 1)\<rparr>
              in if ws_activeConnections room' = 0
                 then m\<lparr>workspaceRooms := AList.delete workspaceId (workspaceRooms m)\<rparr>
                 else m\<lparr>workspaceRooms := AList.update workspaceId room' (workspaceRooms m)\<rparr>))
      in m1\<lparr>socketToWorkspace := AList.delete socketId (socketToWorkspace m1)\<rparr>)"

definition getWorkspaceIdForSocket :: "RoomManager \<Rightarrow> string \<Rightarrow> string option" where
  "getWorkspaceIdForSocket m socketId = map_option fst (map_of (socketToWorkspace m) socketId)"

datatype resource_type = Env | Tools | Folders | Mcp | Workflows

datatype operation = Create | Update | Delete

text \<open>The string literals of the two union types.\<close>

fun resource_type_str :: "resource_type \<Rightarrow> string" where
  "resource_type_str Env = ''env''"
| "resource_type_str Tools = ''tools''"
| "resource_type_str Folders = ''folders''"
| "resource_type_str Mcp = ''mcp''"
| "resource_type_str Workflows = ''workflows''"

fun operation_str :: "operation \<Rightarrow> string" where
  "operation_str Create = ''create''"
| "operation_str Update = ''update''"
| "operation_str Delete = ''delete''"

text \<open>\<^verbatim>\<open>eventMap[resourceType]\<close>, with the template strings written as concatenations.\<close>

fun eventMap :: "operation \<Rightarrow> resource_type \<Rightarrow> string" where
  "eventMap operation Env = ''workspace-env-updated''"
| "eventMap operation Tools = ''workspace-tool-'' @ operation_str operation @ ''d''"
| "eventMap operation Folders = ''workspace-folder-'' @ operation_str operation @ ''d''"
| "eventMap operation Mcp = ''workspace-mcp-updated''"
| "eventMap operation Workflows = ''workspace-workflow-'' @ operation_str operation @ ''d''"

definition handleWorkspaceResourceChange ::
  "string \<Rightarrow> resource_type \<Rightarrow> operation \<Rightarrow> json \<Rightarrow> int \<Rightarrow> RoomManager
     \<Rightarrow> RoomManager \<times> emission list" where
  "handleWorkspaceResourceChange workspaceId resourceType operation data now m =
     (case map_of (workspaceRooms m) workspaceId of
        None \<Rightarrow> (m, [])
      | Some room \<Rightarrow>
          (m\<lparr>workspaceRooms :=
               AList.update workspaceId (room\<lparr>ws_lastModified := now\<rparr>) (workspaceRooms m)\<rparr>,
           [ToRoom workspaceId (eventMap operation resourceType)
              (JObj [(''workspaceId'', JStr workspaceId),
                     (''resourceType'', JStr (resource_type_str resourceType)),
                     (''operation'', JStr (operation_str operation)),
                     (''data'', data),
                     (''timestamp'', JNum now)])]))"

section \<open>Permission changes (\<^verbatim>\<open>RoomManager.handlePermissionChange\<close>)\<close>

text \<open>
  The source collects the affected room objects first and then works on each of them.
  A room object is read here through the registry entry it was found in; the calls
  \<^verbatim>\<open>cleanupUserFromRoom(socketId, room.workflowId)\<close> and
  \<^verbatim>\<open>broadcastPresenceUpdate(room.workflowId)\<close> go through the registry by the room's
  own \<^verbatim>\<open>workflowId\<close> field, as in the source. The two agree when every room is stored
  under its own id (\<open>rooms_keyed\<close> below), which is how \<^verbatim>\<open>createWorkflowRoom\<close> and
  \<^verbatim>\<open>setWorkflowRoom\<close> are used.
\<close>

definition role_json :: "string option \<Rightarrow> json" where
  "role_json r = (case r of None \<Rightarrow> JNull | Some s \<Rightarrow> JStr s)"

text \<open>The branch \<^verbatim>\<open>if (isRemoved)\<close> for one socket of the user.\<close>

definition revokeSocket ::
  "string \<Rightarrow> int \<Rightarrow> string \<Rightarrow> string \<Rightarrow> RoomManager \<times> emission list
     \<Rightarrow> RoomManager \<times> emission list" where
  "revokeSocket workspaceId now roomWorkflowId socketId acc =
     (let m = fst acc; out = snd acc
      in if socketId \<in> set (io_sockets m)
         then (cleanupUserFromRoom socketId roomWorkflowId
                 (socket_leave socketId roomWorkflowId m),
               out @ [ToSocket socketId ''permission-revoked''
                        (JObj [(''workspaceId'', JStr workspaceId),
                               (''message'',
                                  JStr ''Your access to this workspace has been removed''),
                               (''timestamp'', JNum now)])])
         else (cleanupUserFromRoom socketId roomWorkflowId m, out))"

text \<open>\<^verbatim>\<open>presence.role = newRole!\<close>: the presence object lives in the room that is
  stored under \<open>key\<close>.\<close>

definition setPresenceRole ::
  "string \<Rightarrow> string \<Rightarrow> string option \<Rightarrow> RoomManager \<Rightarrow> RoomManager" where
  "setPresenceRole key socketId newRole m =
     m\<lparr>workflowRooms :=
         AList.map_entry key
           (\<lambda>room. room\<lparr>wf_users :=
              AList.map_entry socketId (\<lambda>p. p\<lparr>p_role := newRole\<rparr>) (wf_users room)\<rparr>)
           (workflowRooms m)\<rparr>"

text \<open>The \<^verbatim>\<open>else\<close> branch for one socket of the user.\<close>

definition changeSocketRole ::
  "string \<Rightarrow> string option \<Rightarrow> int \<Rightarrow> string \<Rightarrow> string \<Rightarrow> string \<times> UserPresence
     \<Rightarrow> RoomManager \<times> emission list \<Rightarrow> RoomManager \<times> emission list" where
  "changeSocketRole workspaceId newRole now key roomWorkflowId entry acc =
     (let m = fst acc; out = snd acc; socketId = fst entry; presence = snd entry;
          oldRole = p_role presence
      in (setPresenceRole key socketId newRole m,
          if socketId \<in> set (io_sockets m)
          then out @ [ToSocket socketId ''permission-changed''
                        (JObj [(''workspaceId'', JStr workspaceId),
                               (''workflowId'', JStr roomWorkflowId),
                               (''oldRole'', role_json oldRole),
                               (''newRole'', role_json newRole),
                               (''message'', JStr ''Your permissions have been updated''),
                               (''timestamp'', JNum now)])]
          else out))"

text \<open>The body of \<^verbatim>\<open>for (const room of affectedRooms)\<close>.\<close>

definition permissionChangeRoom ::
  "string \<Rightarrow> string \<Rightarrow> string option \<Rightarrow> bool \<Rightarrow> int \<Rightarrow> string \<times> WorkflowRoom
     \<Rightarrow> RoomManager \<times> emission list \<Rightarrow> RoomManager \<times> emission list" where
  "permissionChangeRoom userId workspaceId newRole isRemoved now entry acc =
     (let key = fst entry; room = snd entry;
          userSockets = filter (\<lambda>e. p_userId (snd e) = userId) (wf_users room);
          acc' = fold (\<lambda>e a.
                    if isRemoved then revokeSocket workspaceId now (wf_workflowId room) (fst e) a
                    else changeSocketRole workspaceId newRole now key (wf_workflowId room) e a)
                  userSockets acc
      in (fst acc', snd acc' @ broadcastPresenceUpdate (wf_workflowId room) (fst acc')))"

definition affectedRooms :: "string \<Rightarrow> RoomManager \<Rightarrow> (string \<times> WorkflowRoom) list" where
  "affectedRooms userId m =
     filter (\<lambda>entry. filter (\<lambda>u. p_userId u = userId) (map snd (wf_users (snd entry))) \<noteq> [])
       (workflowRooms m)"

definition handlePermissionChange ::
  "string \<Rightarrow> string \<Rightarrow> string option \<Rightarrow> bool \<Rightarrow> int \<Rightarrow> RoomManager
     \<Rightarrow> RoomManager \<times> emission list" where
  "handlePermissionChange userId workspaceId newRole isRemoved now m =
     (if affectedRooms userId m = [] then (m, [])
      else fold (permissionChangeRoom userId workspaceId newRole isRemoved now)
             (affectedRooms userId m) (m, []))"

section \<open>Workspace socket handlers (\<^verbatim>\<open>handlers/workspace.ts\<close>)\<close>

text \<open>
  The socket a handler is bound to. \<^verbatim>\<open>userId\<close> and \<^verbatim>\<open>userName\<close> are set by the
  authentication middleware and may be missing. \<^verbatim>\<open>verifyWorkspaceAccess\<close> asks the
  database; its outcome is an input of the handler: it throws, or it returns
  \<^verbatim>\<open>{hasAccess, role}\<close>.
\<close>

record AuthenticatedSocket =
  sock_id :: string
  sock_userId :: "string option"
  sock_userName :: "string option"

datatype access_outcome = AccessThrows | AccessInfo bool "string option"

text \<open>JavaScript truthiness of an optional string: \<^verbatim>\<open>undefined\<close> and \<^verbatim>\<open>''\<close> are falsy.\<close>

definition truthy :: "string option \<Rightarrow> bool" where
  "truthy s = (case s of None \<Rightarrow> False | Some x \<Rightarrow> x \<noteq> [])"

definition join_workspace ::
  "AuthenticatedSocket \<Rightarrow> access_outcome \<Rightarrow> string \<Rightarrow> int \<Rightarrow> RoomManager
     \<Rightarrow> RoomManager \<times> emission list" where
  "join_workspace socket access workspaceId now m =
     (if \<not> truthy (sock_userId socket) \<or> \<not> truthy (sock_userName socket)
      then (m, [ToSocket (sock_id socket) ''join-workspace-error''
                  (JObj [(''error'', JStr ''Authentication required'')])])
      else
        (case access of
           AccessThrows \<Rightarrow>
             (m, [ToSocket (sock_id socket) ''join-workspace-error''
                    (JObj [(''error'', JStr ''Failed to verify workspace access'')])])
         | AccessInfo hasAccess role \<Rightarrow>
             if \<not> hasAccess
             then (m, [ToSocket (sock_id socket) ''join-workspace-error''
                         (JObj [(''error'', JStr ''Access denied to workspace'')])])
             else
               (let userRole = (case role of
                                  None \<Rightarrow> ''read''
                                | Some r \<Rightarrow> if r \<noteq> [] then r else ''read'');
                    m1 = (case getWorkspaceIdForSocket m (sock_id socket) of
                            None \<Rightarrow> m
                          | Some currentWorkspaceId \<Rightarrow>
                              if currentWorkspaceId \<noteq> [] \<and> currentWorkspaceId \<noteq> workspaceId
                              then cleanupUserFromWorkspaceRoom (sock_id socket)
                                     currentWorkspaceId
                                     (socket_leave (sock_id socket) currentWorkspaceId m)
                              else m);
                    m2 = socket_join (sock_id socket) workspaceId m1;
                    m3 = (if map_of (workspaceRooms m2) workspaceId = None
                          then m2\<lparr>workspaceRooms :=
                                 AList.update workspaceId (createWorkspaceRoom workspaceId now)
                                   (workspaceRooms m2)\<rparr>
                          else m2);
                    room = (case map_of (workspaceRooms m3) workspaceId of
                              Some r \<Rightarrow> r | None \<Rightarrow> createWorkspaceRoom workspaceId now);
                    room' = room\<lparr>ws_activeConnections := ws_activeConnections room + 1,
                                 ws_users := set_add (sock_id socket) (ws_users room)\<rparr>;
                    m4 = m3\<lparr>workspaceRooms :=
                              AList.update workspaceId room' (workspaceRooms m3)\<rparr>;
                    m5 = m4\<lparr>socketToWorkspace :=
                              AList.update (sock_id socket) (workspaceId, userRole)
                                (socketToWorkspace m4)\<rparr>
                in (m5, [ToSocket (sock_id socket) ''joined-workspace''
                           (JObj [(''workspaceId'', JStr workspaceId),
                                  (''role'', JStr userRole),
                                  (''activeUsers'', JNum (ws_activeConnections room'))])]))))"

definition leave_workspace ::
  "AuthenticatedSocket \<Rightarrow> string \<Rightarrow> RoomManager \<Rightarrow> RoomManager \<times> emission list" where
  "leave_workspace socket workspaceId m =
     (cleanupUserFromWorkspaceRoom (sock_id socket) workspaceId
        (socket_leave (sock_id socket) workspaceId m),
      [ToSocket (sock_id socket) ''left-workspace'' (JObj [(''workspaceId'', JStr workspaceId)])])"

section \<open>The HTTP ingress (\<^verbatim>\<open>routes/http.ts\<close>)\<close>

text \<open>
  A request is its method, its URL and the body text collected from the \<^verbatim>\<open>data\<close>
  events. \<^verbatim>\<open>JSON.parse\<close> and the destructuring of its result are the parameter
  \<open>parse\<close>: \<open>None\<close> when either throws (the body is not JSON, or it is the JSON
  value \<^verbatim>\<open>null\<close>, which cannot be destructured), otherwise the fields of the
  notification. The application tier is the only sender and gives every field its
  declared type; an endpoint reads the fields it destructures and ignores the others.
\<close>

record http_request =
  req_method :: string
  req_url :: string
  req_body :: string

record http_response =
  res_status :: nat
  res_body :: json

record notification =
  n_workflowId :: string
  n_description :: "string option"
  n_timestamp :: int
  n_userId :: string
  n_workspaceId :: string
  n_newRole :: "string option"
  n_isRemoved :: bool
  n_resourceType :: resource_type
  n_operation :: operation
  n_data :: json

definition success_response :: http_response where
  "success_response = \<lparr>res_status = 200, res_body = JObj [(''success'', JBool True)]\<rparr>"

definition error_response :: "string \<Rightarrow> http_response" where
  "error_response reason = \<lparr>res_status = 500, res_body = JObj [(''error'', JStr reason)]\<rparr>"

text \<open>The \<^verbatim>\<open>try\<close>/\<^verbatim>\<open>catch\<close> of every POST endpoint: parse, run the operation, answer.\<close>

definition post_endpoint ::
  "(string \<Rightarrow> notification option) \<Rightarrow> string
     \<Rightarrow> (notification \<Rightarrow> RoomManager \<Rightarrow> RoomManager \<times> emission list)
     \<Rightarrow> RoomManager \<Rightarrow> http_request \<Rightarrow> RoomManager \<times> emission list \<times> http_response" where
  "post_endpoint parse reason run m req =
     (case parse (req_body req) of
        None \<Rightarrow> (m, [], error_response reason)
      | Some n \<Rightarrow> (fst (run n m), snd (run n m), success_response))"

definition createHttpHandler ::
  "(string \<Rightarrow> notification option) \<Rightarrow> string \<Rightarrow> int \<Rightarrow> RoomManager \<Rightarrow> http_request
     \<Rightarrow> RoomManager \<times> emission list \<times> http_response" where
  "createHttpHandler parse isoNow now m req =
     (if req_method req = ''GET'' \<and> req_url req = ''/health''
      then (m, [], \<lparr>res_status = 200,
                    res_body = JObj [(''status'', JStr ''ok''),
                                     (''timestamp'', JStr isoNow),
                                     (''connections'', JNum (getTotalActiveConnections m))]\<rparr>)
      else if req_method req = ''POST'' \<and> req_url req = ''/api/workflow-deleted''
      then post_endpoint parse ''Failed to process deletion notification''
             (\<lambda>n. handleWorkflowDeletion (n_workflowId n) now) m req
      else if req_method req = ''POST'' \<and> req_url req = ''/api/workflow-updated''
      then post_endpoint parse ''Failed to process update notification''
             (\<lambda>n. handleWorkflowUpdate (n_workflowId n) now) m req
      else if req_method req = ''POST'' \<and> req_url req = ''/api/copilot-workflow-edit''
      then post_endpoint parse ''Failed to process copilot edit notification''
             (\<lambda>n. handleCopilotWorkflowEdit (n_workflowId n) (n_description n) now) m req
      else if req_method req = ''POST'' \<and> req_url req = ''/api/workflow-reverted''
      then post_endpoint parse ''Failed to process revert notification''
             (\<lambda>n. handleWorkflowRevert (n_workflowId n) (n_timestamp n)) m req
      else if req_method req = ''POST'' \<and> req_url req = ''/api/permission-changed''
      then post_endpoint parse ''Failed to process permission change notification''
             (\<lambda>n. handlePermissionChange (n_userId n) (n_workspaceId n) (n_newRole n)
                     (n_isRemoved n) now) m req
      else if req_method req = ''POST'' \<and> req_url req = ''/api/workspace-resource-changed''
      then post_endpoint parse ''Failed to process workspace resource change notification''
             (\<lambda>n. handleWorkspaceResourceChange (n_workspaceId n) (n_resourceType n)
                     (n_operation n) (n_data n) now) m req
      else (m, [], \<lparr>res_status = 404, res_body = JObj [(''error'', JStr ''Not found'')]\<rparr>))"

section \<open>The notifier of the application tier (\<^verbatim>\<open>lib/realtime/notify-workspace-change.ts\<close>)\<close>


datatype fetch_outcome = Response bool | AbortError | OtherError





text \<open>How the promise that the function returns settles: it resolves, or it is rejected
  with what was thrown.\<close>

datatype settled = Resolved | Rejected fetch_outcome






section \<open>Joining and leaving a workflow room\<close>

text \<open>
  \<^verbatim>\<open>handlers/index.ts\<close> registers the handlers of \<^verbatim>\<open>handlers/workflow.ts\<close> and
  \<^verbatim>\<open>handlers/workspace.ts\<close> imports the access check of
  \<^verbatim>\<open>middleware/permissions.ts\<close>; neither file is among the sources. What follows is
  taken from sections 4.2, 4.3 and 6 of the specification.
\<close>

text \<open>Modelled from the spec: the durable stores of section 6 (the database schema is not
  among the sources). The durable workflow store has one record per workflow, of which
  the workspace it belongs to is kept; the durable permission store maps a pair (user
  id, workspace id) to a role or to nothing.\<close>

record durable_store =
  ds_workflows :: "(string \<times> string) list"
  ds_permissions :: "((string \<times> string) \<times> string) list"

text \<open>Modelled from the spec: \<^verbatim>\<open>resolveWorkspaceAccess(userId, workspaceId)\<close> of section
  4.2 (\<^verbatim>\<open>middleware/permissions.ts\<close> is missing), which answers \<^verbatim>\<open>{hasAccess, role}\<close>
  from the persisted permission store.\<close>

definition resolveWorkspaceAccess ::
  "durable_store \<Rightarrow> string \<Rightarrow> string \<Rightarrow> access_outcome" where
  "resolveWorkspaceAccess store userId workspaceId =
     (case map_of (ds_permissions store) (userId, workspaceId) of
        None \<Rightarrow> AccessInfo False None
      | Some role \<Rightarrow> AccessInfo True (Some role))"

text \<open>Modelled from the spec: the equivalent of \<^verbatim>\<open>resolveWorkspaceAccess\<close> for a workflow
  (section 4.2; \<^verbatim>\<open>middleware/permissions.ts\<close> is missing). A workflow without a durable
  record gives no access: once the record is deleted, "the permission/access check
  alone will deny" (section 9).\<close>

definition resolveWorkflowAccess ::
  "durable_store \<Rightarrow> string \<Rightarrow> string \<Rightarrow> access_outcome" where
  "resolveWorkflowAccess store userId workflowId =
     (case map_of (ds_workflows store) workflowId of
        None \<Rightarrow> AccessInfo False None
      | Some workspaceId \<Rightarrow> resolveWorkspaceAccess store userId workspaceId)"

text \<open>Modelled from the spec: the Connection of section 3 (the authentication middleware
  is missing): socket id, authenticated user id, display name, avatar reference.\<close>

record Connection =
  conn_id :: string
  conn_userId :: string
  conn_userName :: string
  conn_avatar :: "string option"

text \<open>Modelled from the spec: \<^verbatim>\<open>leaveWorkflow(conn)\<close> of section 4.3
  (\<^verbatim>\<open>handlers/workflow.ts\<close> is missing): "removes Presence, decrements
  activeConnections, deletes the room if it reaches zero, clears the reverse index,
  triggers a presence broadcast". The first four steps are \<open>cleanupUserFromRoom\<close> of
  the source.\<close>

definition leaveWorkflow :: "Connection \<Rightarrow> RoomManager \<Rightarrow> RoomManager \<times> emission list" where
  "leaveWorkflow conn m =
     (case map_of (socketToWorkflow m) (conn_id conn) of
        None \<Rightarrow> (m, [])
      | Some workflowId \<Rightarrow>
          (let m' = cleanupUserFromRoom (conn_id conn) workflowId m
           in (m', broadcastPresenceUpdate workflowId m')))"

text \<open>Modelled from the spec: \<^verbatim>\<open>joinWorkflow(conn, workflowId)\<close> of section 4.3
  (\<^verbatim>\<open>handlers/workflow.ts\<close> is missing). The join goes through the access resolver, and
  an access error is a join rejection (section 4.2): the result is \<open>None\<close> and nothing
  changes. Otherwise it "leaves the previous workflow if any, creates the room if
  absent, adds a Presence entry, updates reverse index, bumps activeConnections, emits a
  joined confirmation, triggers a presence broadcast"; the confirmation is the result
  \<open>Some\<close>.\<close>

definition joinWorkflow ::
  "durable_store \<Rightarrow> Connection \<Rightarrow> string \<Rightarrow> int \<Rightarrow> RoomManager
     \<Rightarrow> (RoomManager \<times> emission list) option" where
  "joinWorkflow store conn workflowId now m =
     (case resolveWorkflowAccess store (conn_userId conn) workflowId of
        AccessThrows \<Rightarrow> None
      | AccessInfo hasAccess role \<Rightarrow>
          if \<not> hasAccess then None
          else
            (let left = leaveWorkflow conn m;
                 m1 = fst left;
                 room = (case map_of (workflowRooms m1) workflowId of
                           None \<Rightarrow> createWorkflowRoom workflowId now
                         | Some r \<Rightarrow> r);
                 presence = \<lparr>p_userId = conn_userId conn, p_workflowId = workflowId,
                             p_userName = conn_userName conn, p_socketId = conn_id conn,
                             p_joinedAt = now, p_lastActivity = now, p_role = role,
                             p_cursor = None, p_selection = None,
                             p_avatarUrl = conn_avatar conn\<rparr>;
                 room' = room\<lparr>wf_users := AList.update (conn_id conn) presence (wf_users room),
                              wf_activeConnections := wf_activeConnections room + 1\<rparr>;
                 m2 = m1\<lparr>workflowRooms := AList.update workflowId room' (workflowRooms m1),
                         socketToWorkflow :=
                           AList.update (conn_id conn) workflowId (socketToWorkflow m1)\<rparr>
             in Some (m2, snd left @ broadcastPresenceUpdate workflowId m2)))"

text \<open>Modelled from the spec: the two ingress surfaces of section 4.8 (the server's entry
  point, which binds the handlers, is missing). An event is a socket event with the
  socket it arrives on, or an HTTP request; each carries the clock reading of its
  handling. The access outcome of a workspace join is part of the event, as it is an
  input of the handler of the source.\<close>

datatype event =
    JoinWorkflow Connection string int
  | LeaveWorkflow Connection
  | JoinWorkspace AuthenticatedSocket access_outcome string int
  | LeaveWorkspace AuthenticatedSocket string
  | HttpRequest http_request string int

text \<open>Modelled from the spec: the broker handles one event (section 4.8); a rejected join
  leaves the state as it is.\<close>

fun step ::
  "durable_store \<Rightarrow> (string \<Rightarrow> notification option) \<Rightarrow> event \<Rightarrow> RoomManager \<Rightarrow> RoomManager"
  where
  "step store parse (JoinWorkflow conn workflowId now) m =
     (case joinWorkflow store conn workflowId now m of None \<Rightarrow> m | Some r \<Rightarrow> fst r)"
| "step store parse (LeaveWorkflow conn) m = fst (leaveWorkflow conn m)"
| "step store parse (JoinWorkspace socket access workspaceId now) m =
     fst (join_workspace socket access workspaceId now m)"
| "step store parse (LeaveWorkspace socket workspaceId) m =
     fst (leave_workspace socket workspaceId m)"
| "step store parse (HttpRequest req isoNow now) m =
     fst (createHttpHandler parse isoNow now m req)"

text \<open>Modelled from the spec: the broker handles a sequence of events, one after the
  other, while the durable stores stay as they are.\<close>

definition run ::
  "durable_store \<Rightarrow> (string \<Rightarrow> notification option) \<Rightarrow> event list \<Rightarrow> RoomManager
     \<Rightarrow> RoomManager" where
  "run store parse events m = fold (step store parse) events m"

section \<open>Reading the registry\<close>

text \<open>\<^verbatim>\<open>workflowRooms.get(key)?.users.get(socketId)\<close>: the presence of a socket in a
  workflow room, if the room exists and the socket is in it.\<close>

definition presence_at :: "RoomManager \<Rightarrow> string \<Rightarrow> string \<Rightarrow> UserPresence option" where
  "presence_at m key socketId =
     (case map_of (workflowRooms m) key of
        None \<Rightarrow> None
      | Some room \<Rightarrow> map_of (wf_users room) socketId)"

text \<open>The ids that have a workflow room: the keys of \<^verbatim>\<open>workflowRooms\<close>.\<close>

definition room_ids :: "RoomManager \<Rightarrow> string set" where
  "room_ids m = fst ` set (workflowRooms m)"

section \<open>The event table of the specification\<close>

fun event_name :: "emission \<Rightarrow> string" where
  "event_name (ToRoom room event payload) = event"
| "event_name (ToSocket socketId event payload) = event"

fun past_tense :: "operation \<Rightarrow> string" where
  "past_tense Create = ''created''"
| "past_tense Update = ''updated''"
| "past_tense Delete = ''deleted''"

text \<open>The table of section 4.6 of the specification, row by row, to compare \<open>eventMap\<close>
  with.\<close>

fun spec_event_name :: "resource_type \<Rightarrow> operation \<Rightarrow> string" where
  "spec_event_name Env operation = ''workspace-env-updated''"
| "spec_event_name Tools operation = ''workspace-tool-'' @ past_tense operation"
| "spec_event_name Folders operation = ''workspace-folder-'' @ past_tense operation"
| "spec_event_name Mcp operation = ''workspace-mcp-'' @ past_tense operation"
| "spec_event_name Workflows operation = ''workspace-workflow-'' @ past_tense operation"

section \<open>Example states\<close>

text \<open>The state after \<^verbatim>\<open>new RoomManager(io)\<close>, for a server with the given connected
  sockets.\<close>

definition newRoomManager :: "string list \<Rightarrow> RoomManager" where
  "newRoomManager sockets =
     \<lparr>workflowRooms = [], workspaceRooms = [], socketToWorkflow = [], socketToWorkspace = [],
      userSessions = [], io_sockets = sockets, io_rooms = []\<rparr>"

definition socket_s1 :: AuthenticatedSocket where
  "socket_s1 = \<lparr>sock_id = ''s1'', sock_userId = Some ''u1'', sock_userName = Some ''Ann''\<rparr>"

text \<open>Socket \<open>s1\<close> has joined workspace \<open>ws1\<close> as an admin.\<close>

definition in_ws1 :: RoomManager where
  "in_ws1 = fst (join_workspace socket_s1 (AccessInfo True (Some ''admin'')) ''ws1'' 1
                   (newRoomManager [''s1'']))"

definition example_notification :: notification where
  "example_notification =
     \<lparr>n_workflowId = ''wf1'', n_description = None, n_timestamp = 5, n_userId = ''u1'',
      n_workspaceId = ''ws1'', n_newRole = None, n_isRemoved = False,
      n_resourceType = Tools, n_operation = Create, n_data = JNull\<rparr>"

definition example_body :: string where
  \<open>example_body =
     ''{"workflowId":"wf1","timestamp":5,"userId":"u1","workspaceId":"ws1","newRole":null,"isRemoved":false,"resourceType":"tools","operation":"create","data":null}''\<close>

text \<open>A parser that reads the example notification from the example body and rejects
  every other text.\<close>

definition example_parse :: "string \<Rightarrow> notification option" where
  "example_parse body = (if body = example_body then Some example_notification else None)"

definition post :: "string \<Rightarrow> string \<Rightarrow> http_request" where
  "post url body = \<lparr>req_method = ''POST'', req_url = url, req_body = body\<rparr>"

text \<open>Sockets \<open>s1\<close> (user \<open>u1\<close>) and \<open>s2\<close> (user \<open>u2\<close>) are in the room of workflow
  \<open>wf1\<close>, and \<open>s1\<close> is in the room of workspace \<open>ws1\<close> as before.\<close>

definition presence_s1 :: UserPresence where
  "presence_s1 =
     \<lparr>p_userId = ''u1'', p_workflowId = ''wf1'', p_userName = ''Ann'', p_socketId = ''s1'',
      p_joinedAt = 1, p_lastActivity = 1, p_role = Some ''admin'', p_cursor = None,
      p_selection = None, p_avatarUrl = None\<rparr>"

definition presence_s2 :: UserPresence where
  "presence_s2 =
     \<lparr>p_userId = ''u2'', p_workflowId = ''wf1'', p_userName = ''Bob'', p_socketId = ''s2'',
      p_joinedAt = 2, p_lastActivity = 2, p_role = Some ''read'', p_cursor = None,
      p_selection = None, p_avatarUrl = None\<rparr>"

definition room_wf1 :: WorkflowRoom where
  "room_wf1 =
     \<lparr>wf_workflowId = ''wf1'', wf_users = [(''s1'', presence_s1), (''s2'', presence_s2)],
      wf_lastModified = 2, wf_activeConnections = 2\<rparr>"

definition in_wf1 :: RoomManager where
  "in_wf1 = in_ws1
     \<lparr>workflowRooms := [(''wf1'', room_wf1)],
      socketToWorkflow := [(''s1'', ''wf1''), (''s2'', ''wf1'')],
      userSessions :=
        [(''s1'', \<lparr>us_userId = ''u1'', us_userName = ''Ann'', us_avatarUrl = None\<rparr>),
         (''s2'', \<lparr>us_userId = ''u2'', us_userName = ''Bob'', us_avatarUrl = None\<rparr>)],
      io_sockets := [''s1'', ''s2''],
      io_rooms := [(''s1'', ''ws1''), (''s1'', ''wf1''), (''s2'', ''wf1'')]\<rparr>"

text \<open>Durable stores in which workflow \<open>wf2\<close> of workspace \<open>ws1\<close> has a record and
  \<open>wf1\<close> has none, and a connection of user \<open>u1\<close>, an admin of \<open>ws1\<close>.\<close>

definition store_without_wf1 :: durable_store where
  "store_without_wf1 =
     \<lparr>ds_workflows = [(''wf2'', ''ws1'')], ds_permissions = [((''u1'', ''ws1''), ''admin'')]\<rparr>"

definition conn_s1 :: Connection where
  "conn_s1 = \<lparr>conn_id = ''s1'', conn_userId = ''u1'', conn_userName = ''Ann'',
              conn_avatar = None\<rparr>"

lemmas example_defs =
  in_ws1_def join_workspace_def socket_s1_def newRoomManager_def truthy_def
  getWorkspaceIdForSocket_def socket_join_def socket_leave_def set_add_def
  createWorkspaceRoom_def cleanupUserFromWorkspaceRoom_def leave_workspace_def Let_def

section \<open>Workspace fan-out: the event names\<close>

lemma eventMap_spec:
  "resourceType \<noteq> Mcp \<Longrightarrow> eventMap operation resourceType = spec_event_name resourceType operation"
  by (cases resourceType; cases operation) simp_all

text \<open>
  C1, as the code has it. When the workspace has a room in the registry, a resource
  change of type env, tools, folders or workflows sends exactly one event to the
  workspace room, named as in the table of section 4.6: \<^verbatim>\<open>workspace-env-updated\<close> for
  env whatever the operation, and \<^verbatim>\<open>workspace-tool-\<close>, \<^verbatim>\<open>workspace-folder-\<close>,
  \<^verbatim>\<open>workspace-workflow-\<close> followed by created, updated or deleted for the three other
  types. For these three types a create or a delete never gets the event name of an
  update. The payload carries the workspace id, the resource type, the operation, the
  data and the time stamp.
\<close>

theorem C1_fanout_event_names:
  assumes "map_of (workspaceRooms m) workspaceId = Some room"
    and "resourceType \<noteq> Mcp"
  shows "snd (handleWorkspaceResourceChange workspaceId resourceType operation data now m)
           = [ToRoom workspaceId (spec_event_name resourceType operation)
                (JObj [(''workspaceId'', JStr workspaceId),
                       (''resourceType'', JStr (resource_type_str resourceType)),
                       (''operation'', JStr (operation_str operation)),
                       (''data'', data),
                       (''timestamp'', JNum now)])]
         \<and> (resourceType \<noteq> Env \<longrightarrow> operation \<noteq> Update \<longrightarrow>
              map event_name (snd (handleWorkspaceResourceChange workspaceId resourceType
                                     operation data now m))
              \<noteq> map event_name (snd (handleWorkspaceResourceChange workspaceId resourceType
                                       Update data now m)))"
  using assms
  by (cases resourceType; cases operation) (simp_all add: handleWorkspaceResourceChange_def)

theorem C1_fanout_event_names_witness:
  "map_of (workspaceRooms in_ws1) ''ws1''
     = Some \<lparr>ws_workspaceId = ''ws1'', ws_users = [''s1''], ws_lastModified = 1,
             ws_activeConnections = 1\<rparr>
   \<and> Tools \<noteq> Mcp \<and> Tools \<noteq> Env \<and> Delete \<noteq> Update
   \<and> snd (handleWorkspaceResourceChange ''ws1'' Tools Delete JNull 7 in_ws1)
       = [ToRoom ''ws1'' ''workspace-tool-deleted''
            (JObj [(''workspaceId'', JStr ''ws1''), (''resourceType'', JStr ''tools''),
                   (''operation'', JStr ''delete''), (''data'', JNull),
                   (''timestamp'', JNum 7)])]
   \<and> map event_name (snd (handleWorkspaceResourceChange ''ws1'' Tools Delete JNull 7 in_ws1))
       \<noteq> map event_name (snd (handleWorkspaceResourceChange ''ws1'' Tools Update JNull 7 in_ws1))"
proof -
  have h: "map_of (workspaceRooms in_ws1) ''ws1''
     = Some \<lparr>ws_workspaceId = ''ws1'', ws_users = [''s1''], ws_lastModified = 1,
             ws_activeConnections = 1\<rparr>"
    by (simp add: example_defs)
  show ?thesis
    using h C1_fanout_event_names [OF h, where resourceType = Tools and operation = Delete
        and data = JNull and now = 7]
    by (simp add: handleWorkspaceResourceChange_def)
qed

text \<open>
  C1 as the specification states it fails on the code. With socket \<open>s1\<close> in the room of
  \<open>ws1\<close>, the creation of an MCP server is announced as \<^verbatim>\<open>workspace-mcp-updated\<close>, where
  the table has \<^verbatim>\<open>workspace-mcp-created\<close>; and the deletion of environment variables is
  announced under the same name as their update.
\<close>

theorem C1_mcp_create_is_updated:
  "map event_name (snd (handleWorkspaceResourceChange ''ws1'' Mcp Create JNull 7 in_ws1))
     = [''workspace-mcp-updated'']
   \<and> spec_event_name Mcp Create = ''workspace-mcp-created''
   \<and> map event_name (snd (handleWorkspaceResourceChange ''ws1'' Env Delete JNull 7 in_ws1))
     = map event_name (snd (handleWorkspaceResourceChange ''ws1'' Env Update JNull 7 in_ws1))"
  by (simp add: handleWorkspaceResourceChange_def example_defs)

section \<open>Workspace rooms: counters and reverse index\<close>

text \<open>
  C4 at a failing input. Socket \<open>s1\<close> is in the room of workspace \<open>ws1\<close> and joins
  \<open>ws1\<close> once more. The room then counts two active connections for a membership set
  of one socket.
\<close>

theorem C4_repeated_join_counts_twice:
  "map_of (workspaceRooms
             (fst (join_workspace socket_s1 (AccessInfo True (Some ''admin'')) ''ws1'' 2 in_ws1)))
          ''ws1''
     = Some \<lparr>ws_workspaceId = ''ws1'', ws_users = [''s1''], ws_lastModified = 1,
             ws_activeConnections = 2\<rparr>"
  by (simp add: example_defs)

theorem C4_repeated_join_counts_twice_witness:
  "map_option ws_activeConnections
     (map_of (workspaceRooms
                (fst (join_workspace socket_s1 (AccessInfo True (Some ''admin'')) ''ws1'' 2
                        in_ws1)))
        ''ws1'') = Some 2
   \<and> map_option (length \<circ> ws_users)
       (map_of (workspaceRooms
                  (fst (join_workspace socket_s1 (AccessInfo True (Some ''admin'')) ''ws1'' 2
                          in_ws1)))
          ''ws1'') = Some 1"
  using C4_repeated_join_counts_twice by simp

text \<open>
  C5 at a failing input. Socket \<open>s1\<close> is in the room of workspace \<open>ws1\<close> and sends
  \<^verbatim>\<open>leave-workspace\<close> for \<open>ws2\<close>, which it never joined. Its entry in
  \<^verbatim>\<open>socketToWorkspace\<close> is gone, and it is still a member of the room of \<open>ws1\<close>.
\<close>

theorem C5_leave_other_workspace_breaks_index:
  "map_of (socketToWorkspace (fst (leave_workspace socket_s1 ''ws2'' in_ws1))) ''s1'' = None
   \<and> map_of (workspaceRooms (fst (leave_workspace socket_s1 ''ws2'' in_ws1))) ''ws1''
       = Some \<lparr>ws_workspaceId = ''ws1'', ws_users = [''s1''], ws_lastModified = 1,
               ws_activeConnections = 1\<rparr>"
  by (simp add: example_defs)

theorem C5_leave_other_workspace_breaks_index_witness:
  "getWorkspaceIdForSocket (fst (leave_workspace socket_s1 ''ws2'' in_ws1)) ''s1'' = None
   \<and> map_option ws_users
       (map_of (workspaceRooms (fst (leave_workspace socket_s1 ''ws2'' in_ws1))) ''ws1'')
     = Some [''s1'']"
  using C5_leave_other_workspace_breaks_index by (simp add: getWorkspaceIdForSocket_def)

section \<open>Rejected joins\<close>

text \<open>
  C7. When an authenticated socket asks to join a workspace and the access check throws
  or reports no access, the handler sends \<^verbatim>\<open>join-workspace-error\<close> to that socket and
  returns the state as it was: rooms, counters, reverse indices, and the table of
  connected sockets, so the socket is not disconnected.
\<close>

theorem C7_join_workspace_rejected:
  assumes "truthy (sock_userId socket)" and "truthy (sock_userName socket)"
    and "access = AccessThrows \<or> access = AccessInfo False role"
  shows "\<exists>reason. join_workspace socket access workspaceId now m
           = (m, [ToSocket (sock_id socket) ''join-workspace-error''
                    (JObj [(''error'', JStr reason)])])"
  using assms by (auto simp: join_workspace_def)

theorem C7_join_workspace_rejected_witness:
  "truthy (sock_userId socket_s1) \<and> truthy (sock_userName socket_s1)
   \<and> (\<exists>reason. join_workspace socket_s1 AccessThrows ''ws2'' 3 in_ws1
         = (in_ws1, [ToSocket ''s1'' ''join-workspace-error'' (JObj [(''error'', JStr reason)])]))
   \<and> (\<exists>reason. join_workspace socket_s1 (AccessInfo False None) ''ws2'' 3 in_ws1
         = (in_ws1, [ToSocket ''s1'' ''join-workspace-error'' (JObj [(''error'', JStr reason)])]))"
proof -
  have a: "truthy (sock_userId socket_s1)" and b: "truthy (sock_userName socket_s1)"
    by (simp_all add: socket_s1_def truthy_def)
  have c: "sock_id socket_s1 = ''s1''"
    by (simp add: socket_s1_def)
  show ?thesis
    using a b
      C7_join_workspace_rejected [OF a b, where access = AccessThrows
        and workspaceId = "''ws2''" and now = 3 and m = in_ws1]
      C7_join_workspace_rejected [OF a b, where access = "AccessInfo False None"
        and role = None and workspaceId = "''ws2''" and now = 3 and m = in_ws1]
    by (simp add: c)
qed

section \<open>The HTTP ingress\<close>

text \<open>
  C10. When the registry has no room for the workflow id, each of
  \<^verbatim>\<open>handleWorkflowDeletion\<close>, \<^verbatim>\<open>handleWorkflowUpdate\<close>, \<^verbatim>\<open>handleWorkflowRevert\<close> and
  \<^verbatim>\<open>handleCopilotWorkflowEdit\<close> returns the state unchanged and sends nothing, and the
  HTTP endpoint of each still answers 200 with \<^verbatim>\<open>{success: true}\<close>.
\<close>

theorem C10_no_room_no_effect:
  assumes "map_of (workflowRooms m) workflowId = None"
  shows "handleWorkflowDeletion workflowId now m = (m, [])
       \<and> handleWorkflowUpdate workflowId now m = (m, [])
       \<and> handleWorkflowRevert workflowId timestamp m = (m, [])
       \<and> handleCopilotWorkflowEdit workflowId description now m = (m, [])
       \<and> (req_method req = ''POST''
            \<and> req_url req \<in> {''/api/workflow-deleted'', ''/api/workflow-updated'',
                              ''/api/workflow-reverted'', ''/api/copilot-workflow-edit''}
            \<and> parse (req_body req) = Some n \<and> n_workflowId n = workflowId
          \<longrightarrow> createHttpHandler parse isoNow now m req
                = (m, [], \<lparr>res_status = 200, res_body = JObj [(''success'', JBool True)]\<rparr>))"
  using assms
  by (auto simp: handleWorkflowDeletion_def handleWorkflowUpdate_def handleWorkflowRevert_def
      handleCopilotWorkflowEdit_def createHttpHandler_def post_endpoint_def
      success_response_def)

theorem C10_no_room_no_effect_witness:
  "map_of (workflowRooms in_ws1) ''wf1'' = None
   \<and> handleWorkflowDeletion ''wf1'' 9 in_ws1 = (in_ws1, [])
   \<and> handleWorkflowUpdate ''wf1'' 9 in_ws1 = (in_ws1, [])
   \<and> handleWorkflowRevert ''wf1'' 5 in_ws1 = (in_ws1, [])
   \<and> handleCopilotWorkflowEdit ''wf1'' None 9 in_ws1 = (in_ws1, [])
   \<and> createHttpHandler example_parse ''t'' 9 in_ws1 (post ''/api/workflow-reverted'' example_body)
       = (in_ws1, [], \<lparr>res_status = 200, res_body = JObj [(''success'', JBool True)]\<rparr>)"
proof -
  have h: "map_of (workflowRooms in_ws1) ''wf1'' = None"
    by (simp add: example_defs)
  show ?thesis
    using h
      C10_no_room_no_effect [OF h, where now = 9 and timestamp = 5 and description = None
        and req = "post ''/api/workflow-reverted'' example_body" and parse = example_parse
        and n = example_notification and isoNow = "''t''"]
    by (simp add: post_def example_parse_def example_notification_def example_body_def)
qed

text \<open>
  C6. Each of the six POST endpoints parses the body and then, if parsing succeeds,
  runs its operation of the room manager on the fields of the body and answers 200 with
  \<^verbatim>\<open>{success: true}\<close>; if the body does not parse, it answers 500 with an object that
  holds the reason, and the state is untouched. A request that is neither
  \<^verbatim>\<open>GET /health\<close> nor one of the six is answered 404.
\<close>

theorem C6_http_endpoints:
  "(req_method req = ''POST'' \<and> parse (req_body req) = Some n \<longrightarrow>
      (req_url req = ''/api/workflow-deleted'' \<longrightarrow>
         createHttpHandler parse isoNow now m req
         = (fst (handleWorkflowDeletion (n_workflowId n) now m),
            snd (handleWorkflowDeletion (n_workflowId n) now m), success_response))
    \<and> (req_url req = ''/api/workflow-updated'' \<longrightarrow>
         createHttpHandler parse isoNow now m req
         = (fst (handleWorkflowUpdate (n_workflowId n) now m),
            snd (handleWorkflowUpdate (n_workflowId n) now m), success_response))
    \<and> (req_url req = ''/api/workflow-reverted'' \<longrightarrow>
         createHttpHandler parse isoNow now m req
         = (fst (handleWorkflowRevert (n_workflowId n) (n_timestamp n) m),
            snd (handleWorkflowRevert (n_workflowId n) (n_timestamp n) m), success_response))
    \<and> (req_url req = ''/api/copilot-workflow-edit'' \<longrightarrow>
         createHttpHandler parse isoNow now m req
         = (fst (handleCopilotWorkflowEdit (n_workflowId n) (n_description n) now m),
            snd (handleCopilotWorkflowEdit (n_workflowId n) (n_description n) now m),
            success_response))
    \<and> (req_url req = ''/api/permission-changed'' \<longrightarrow>
         createHttpHandler parse isoNow now m req
         = (fst (handlePermissionChange (n_userId n) (n_workspaceId n) (n_newRole n)
                   (n_isRemoved n) now m),
            snd (handlePermissionChange (n_userId n) (n_workspaceId n) (n_newRole n)
                   (n_isRemoved n) now m),
            success_response))
    \<and> (req_url req = ''/api/workspace-resource-changed'' \<longrightarrow>
         createHttpHandler parse isoNow now m req
         = (fst (handleWorkspaceResourceChange (n_workspaceId n) (n_resourceType n)
                   (n_operation n) (n_data n) now m),
            snd (handleWorkspaceResourceChange (n_workspaceId n) (n_resourceType n)
                   (n_operation n) (n_data n) now m),
            success_response)))
   \<and> (req_method req = ''POST'' \<and> parse (req_body req) = None
        \<and> req_url req \<in> {''/api/workflow-deleted'', ''/api/workflow-updated'',
              ''/api/workflow-reverted'', ''/api/copilot-workflow-edit'',
              ''/api/permission-changed'', ''/api/workspace-resource-changed''}
      \<longrightarrow> (\<exists>reason. createHttpHandler parse isoNow now m req
             = (m, [], \<lparr>res_status = 500, res_body = JObj [(''error'', JStr reason)]\<rparr>)))
   \<and> (\<not> (req_method req = ''GET'' \<and> req_url req = ''/health'')
        \<and> \<not> (req_method req = ''POST''
              \<and> req_url req \<in> {''/api/workflow-deleted'', ''/api/workflow-updated'',
                    ''/api/workflow-reverted'', ''/api/copilot-workflow-edit'',
                    ''/api/permission-changed'', ''/api/workspace-resource-changed''})
      \<longrightarrow> createHttpHandler parse isoNow now m req
          = (m, [], \<lparr>res_status = 404, res_body = JObj [(''error'', JStr ''Not found'')]\<rparr>))
   \<and> success_response = \<lparr>res_status = 200, res_body = JObj [(''success'', JBool True)]\<rparr>"
  by (auto simp: createHttpHandler_def post_endpoint_def error_response_def
      success_response_def)

theorem C6_http_endpoints_witness:
  "snd (snd (createHttpHandler example_parse ''t'' 9 in_ws1 (post ''/api/workflow-deleted'' example_body)))
     = \<lparr>res_status = 200, res_body = JObj [(''success'', JBool True)]\<rparr>
   \<and> snd (snd (createHttpHandler example_parse ''t'' 9 in_ws1
                  (post ''/api/workflow-updated'' example_body)))
     = \<lparr>res_status = 200, res_body = JObj [(''success'', JBool True)]\<rparr>
   \<and> snd (snd (createHttpHandler example_parse ''t'' 9 in_ws1
                  (post ''/api/workflow-reverted'' example_body)))
     = \<lparr>res_status = 200, res_body = JObj [(''success'', JBool True)]\<rparr>
   \<and> snd (snd (createHttpHandler example_parse ''t'' 9 in_ws1
                  (post ''/api/copilot-workflow-edit'' example_body)))
     = \<lparr>res_status = 200, res_body = JObj [(''success'', JBool True)]\<rparr>
   \<and> snd (snd (createHttpHandler example_parse ''t'' 9 in_ws1
                  (post ''/api/permission-changed'' example_body)))
     = \<lparr>res_status = 200, res_body = JObj [(''success'', JBool True)]\<rparr>
   \<and> snd (snd (createHttpHandler example_parse ''t'' 9 in_ws1
                  (post ''/api/workspace-resource-changed'' example_body)))
     = \<lparr>res_status = 200, res_body = JObj [(''success'', JBool True)]\<rparr>
   \<and> (\<exists>reason. createHttpHandler example_parse ''t'' 9 in_ws1
                   (post ''/api/permission-changed'' ''not json'')
         = (in_ws1, [], \<lparr>res_status = 500, res_body = JObj [(''error'', JStr reason)]\<rparr>))
   \<and> createHttpHandler example_parse ''t'' 9 in_ws1 (post ''/api/unknown'' example_body)
       = (in_ws1, [], \<lparr>res_status = 404, res_body = JObj [(''error'', JStr ''Not found'')]\<rparr>)"
  using
    C6_http_endpoints [where parse = example_parse and isoNow = "''t''" and now = 9
      and m = in_ws1 and n = example_notification
      and req = "post ''/api/workflow-deleted'' example_body"]
    C6_http_endpoints [where parse = example_parse and isoNow = "''t''" and now = 9
      and m = in_ws1 and n = example_notification
      and req = "post ''/api/workflow-updated'' example_body"]
    C6_http_endpoints [where parse = example_parse and isoNow = "''t''" and now = 9
      and m = in_ws1 and n = example_notification
      and req = "post ''/api/workflow-reverted'' example_body"]
    C6_http_endpoints [where parse = example_parse and isoNow = "''t''" and now = 9
      and m = in_ws1 and n = example_notification
      and req = "post ''/api/copilot-workflow-edit'' example_body"]
    C6_http_endpoints [where parse = example_parse and isoNow = "''t''" and now = 9
      and m = in_ws1 and n = example_notification
      and req = "post ''/api/permission-changed'' example_body"]
    C6_http_endpoints [where parse = example_parse and isoNow = "''t''" and now = 9
      and m = in_ws1 and n = example_notification
      and req = "post ''/api/workspace-resource-changed'' example_body"]
    C6_http_endpoints [where parse = example_parse and isoNow = "''t''" and now = 9
      and m = in_ws1 and n = example_notification
      and req = "post ''/api/permission-changed'' ''not json''"]
    C6_http_endpoints [where parse = example_parse and isoNow = "''t''" and now = 9
      and m = in_ws1 and n = example_notification
      and req = "post ''/api/unknown'' example_body"]
  by (simp add: post_def example_parse_def example_body_def)

section \<open>Permission changes\<close>

lemma fold_establish:
  assumes "x \<in> set xs" and "I s"
    and "\<And>y s. I s \<Longrightarrow> I (f y s)"
    and "\<And>s. I s \<Longrightarrow> P (f x s)"
    and "\<And>y s. I s \<Longrightarrow> P s \<Longrightarrow> P (f y s)"
  shows "P (fold f xs s)"
  using assms(1,2)
proof (induction xs arbitrary: s)
  case Nil
  then show ?case by simp
next
  case (Cons a xs)
  show ?case
  proof (cases "x = a")
    case True
    have "I (f a s) \<and> P (f a s)"
      using Cons.prems(2) True assms(3,4) by blast
    then have "I (fold f xs (f a s)) \<and> P (fold f xs (f a s))"
      by (rule fold_invariant [where Q = "\<lambda>_. True" and P = "\<lambda>s. I s \<and> P s", rotated 1])
         (use assms(3,5) in auto)
    then show ?thesis by simp
  next
    case False
    then have "x \<in> set xs" using Cons.prems(1) by simp
    moreover have "I (f a s)" using Cons.prems(2) assms(3) by blast
    ultimately have "P (fold f xs (f a s))" by (rule Cons.IH)
    then show ?thesis by simp
  qed
qed

lemma map_of_Some_key: "map_of xs k = Some v \<Longrightarrow> k \<in> fst ` set xs"
  by (force dest: map_of_SomeD)

lemma in_affectedRooms:
  assumes "map_of (workflowRooms m) key = Some room"
    and "(s, p) \<in> set (wf_users room)" and "p_userId p = u"
  shows "(key, room) \<in> set (affectedRooms u m)"
proof -
  have "p \<in> set (map snd (wf_users room))"
    using assms(2) by force
  then have "filter (\<lambda>x. p_userId x = u) (map snd (wf_users room)) \<noteq> []"
    using assms(3) by (auto simp: filter_empty_conv)
  moreover have "(key, room) \<in> set (workflowRooms m)"
    using assms(1) by (rule map_of_SomeD)
  ultimately show ?thesis
    by (simp add: affectedRooms_def)
qed

lemma presence_at_setPresenceRole:
  "presence_at (setPresenceRole k s r m) k' s'
     = (if k' = k \<and> s' = s then map_option (\<lambda>p. p\<lparr>p_role := r\<rparr>) (presence_at m k s)
        else presence_at m k' s')"
  by (auto simp: presence_at_def setPresenceRole_def map_of_map_entry split: option.splits)

lemma io_sockets_setPresenceRole [simp]:
  "io_sockets (setPresenceRole k s r m) = io_sockets m"
  by (simp add: setPresenceRole_def)

lemma changeSocketRole_fst [simp]:
  "fst (changeSocketRole ws r now k wfid e acc) = setPresenceRole k (fst e) r (fst acc)"
  by (simp add: changeSocketRole_def Let_def)

lemma changeSocketRole_snd:
  "snd (changeSocketRole ws r now k wfid e acc)
     = (if fst e \<in> set (io_sockets (fst acc))
        then snd acc @ [ToSocket (fst e) ''permission-changed''
                        (JObj [(''workspaceId'', JStr ws),
                               (''workflowId'', JStr wfid),
                               (''oldRole'', role_json (p_role (snd e))),
                               (''newRole'', role_json r),
                               (''message'', JStr ''Your permissions have been updated''),
                               (''timestamp'', JNum now)])]
        else snd acc)"
  by (simp add: changeSocketRole_def Let_def)

lemma permissionChangeRoom_keep:
  "permissionChangeRoom u ws r False now entry acc
     = (let acc' = fold (changeSocketRole ws r now (fst entry) (wf_workflowId (snd entry)))
                     (filter (\<lambda>e. p_userId (snd e) = u) (wf_users (snd entry))) acc
        in (fst acc', snd acc' @ broadcastPresenceUpdate (wf_workflowId (snd entry)) (fst acc')))"
  by (simp add: permissionChangeRoom_def Let_def)

lemma role_changed:
  assumes room: "map_of (workflowRooms m) key = Some room"
    and pres: "map_of (wf_users room) socketId = Some presence"
    and user: "p_userId presence = userId"
  shows "presence_at (fst (handlePermissionChange userId workspaceId newRole False now m))
           key socketId = Some (presence\<lparr>p_role := newRole\<rparr>)
       \<and> (socketId \<in> set (io_sockets m) \<longrightarrow>
            ToSocket socketId ''permission-changed''
              (JObj [(''workspaceId'', JStr workspaceId),
                     (''workflowId'', JStr (wf_workflowId room)),
                     (''oldRole'', role_json (p_role presence)),
                     (''newRole'', role_json newRole),
                     (''message'', JStr ''Your permissions have been updated''),
                     (''timestamp'', JNum now)])
            \<in> set (snd (handlePermissionChange userId workspaceId newRole False now m)))"
proof -
  define E where "E = ToSocket socketId ''permission-changed''
                        (JObj [(''workspaceId'', JStr workspaceId),
                               (''workflowId'', JStr (wf_workflowId room)),
                               (''oldRole'', role_json (p_role presence)),
                               (''newRole'', role_json newRole),
                               (''message'', JStr ''Your permissions have been updated''),
                               (''timestamp'', JNum now)])"
  define I where "I = (\<lambda>acc :: RoomManager \<times> emission list.
     io_sockets (fst acc) = io_sockets m
     \<and> (presence_at (fst acc) key socketId = Some presence
        \<or> presence_at (fst acc) key socketId = Some (presence\<lparr>p_role := newRole\<rparr>)))"
  define P where "P = (\<lambda>acc :: RoomManager \<times> emission list.
     presence_at (fst acc) key socketId = Some (presence\<lparr>p_role := newRole\<rparr>)
     \<and> (socketId \<in> set (io_sockets m) \<longrightarrow> E \<in> set (snd acc)))"
  let ?sock = "\<lambda>k wfid. changeSocketRole workspaceId newRole now k wfid"
  let ?room = "permissionChangeRoom userId workspaceId newRole False now"
  have sockI: "I (?sock k wfid e acc)" if "I acc" for k wfid e acc
    using that by (auto simp: I_def presence_at_setPresenceRole)
  have sockP: "P (?sock k wfid e acc)" if "I acc" "P acc" for k wfid e acc
    using that by (auto simp: I_def P_def presence_at_setPresenceRole changeSocketRole_snd)
  have sockE: "P (?sock key (wf_workflowId room) (socketId, presence) acc)" if "I acc" for acc
    using that by (auto simp: I_def P_def E_def presence_at_setPresenceRole changeSocketRole_snd)
  have roomI: "I (?room entry acc)" if "I acc" for entry acc
  proof -
    have "I (fold (?sock (fst entry) (wf_workflowId (snd entry)))
               (filter (\<lambda>e. p_userId (snd e) = userId) (wf_users (snd entry))) acc)"
      by (rule fold_invariant [where Q = "\<lambda>_. True"]) (use that sockI in auto)
    then show ?thesis
      by (simp add: permissionChangeRoom_keep Let_def I_def)
  qed
  have roomP: "P (?room entry acc)" if "I acc" "P acc" for entry acc
  proof -
    have "I (fold (?sock (fst entry) (wf_workflowId (snd entry)))
               (filter (\<lambda>e. p_userId (snd e) = userId) (wf_users (snd entry))) acc)
          \<and> P (fold (?sock (fst entry) (wf_workflowId (snd entry)))
               (filter (\<lambda>e. p_userId (snd e) = userId) (wf_users (snd entry))) acc)"
      by (rule fold_invariant [where Q = "\<lambda>_. True"]) (use that sockI sockP in auto)
    then show ?thesis
      by (simp add: permissionChangeRoom_keep Let_def P_def)
  qed
  have in_users: "(socketId, presence)
      \<in> set (filter (\<lambda>e. p_userId (snd e) = userId) (wf_users room))"
    using pres user by (auto dest: map_of_SomeD)
  have roomE: "P (?room (key, room) acc)" if "I acc" for acc
  proof -
    have "P (fold (?sock key (wf_workflowId room))
               (filter (\<lambda>e. p_userId (snd e) = userId) (wf_users room)) acc)"
      using in_users that sockI sockE sockP
      by (rule fold_establish [where I = I])
    then show ?thesis
      by (simp add: permissionChangeRoom_keep Let_def P_def)
  qed
  have in_rooms: "(key, room) \<in> set (affectedRooms userId m)"
    using room in_users by (auto intro: in_affectedRooms)
  have I0: "I (m, [])"
    using room pres by (simp add: I_def presence_at_def)
  have "P (fold ?room (affectedRooms userId m) (m, []))"
    using in_rooms I0 roomI roomE roomP
    by (rule fold_establish [where I = I])
  moreover have "affectedRooms userId m \<noteq> []"
    using in_rooms by auto
  ultimately show ?thesis
    by (simp add: handlePermissionChange_def P_def E_def)
qed


text \<open>
  C9. A permission change with \<^verbatim>\<open>isRemoved = false\<close> and \<^verbatim>\<open>newRole = null\<close> is not
  rejected. For every presence of the user in a workflow room the cached role becomes
  \<^verbatim>\<open>null\<close>, the socket of the presence, when it is connected, is sent
  \<^verbatim>\<open>permission-changed\<close> with \<^verbatim>\<open>newRole: null\<close> and the old role, and the endpoint
  \<^verbatim>\<open>/api/permission-changed\<close> answers 200 with \<^verbatim>\<open>{success: true}\<close>.
\<close>

theorem C9_null_role_is_accepted:
  assumes "map_of (workflowRooms m) key = Some room"
    and "map_of (wf_users room) socketId = Some presence"
    and "p_userId presence = userId"
  shows "presence_at (fst (handlePermissionChange userId workspaceId None False now m))
           key socketId = Some (presence\<lparr>p_role := None\<rparr>)
       \<and> (socketId \<in> set (io_sockets m) \<longrightarrow>
            ToSocket socketId ''permission-changed''
              (JObj [(''workspaceId'', JStr workspaceId),
                     (''workflowId'', JStr (wf_workflowId room)),
                     (''oldRole'', role_json (p_role presence)),
                     (''newRole'', JNull),
                     (''message'', JStr ''Your permissions have been updated''),
                     (''timestamp'', JNum now)])
            \<in> set (snd (handlePermissionChange userId workspaceId None False now m)))
       \<and> (req_method req = ''POST'' \<and> req_url req = ''/api/permission-changed''
            \<and> parse (req_body req) = Some n \<and> n_userId n = userId
            \<and> n_workspaceId n = workspaceId \<and> n_newRole n = None \<and> n_isRemoved n = False
          \<longrightarrow> createHttpHandler parse isoNow now m req
                = (fst (handlePermissionChange userId workspaceId None False now m),
                   snd (handlePermissionChange userId workspaceId None False now m),
                   \<lparr>res_status = 200, res_body = JObj [(''success'', JBool True)]\<rparr>))"
  using role_changed [OF assms, where newRole = None and workspaceId = workspaceId
      and now = now]
  by (auto simp: role_json_def createHttpHandler_def post_endpoint_def success_response_def)

theorem C9_null_role_is_accepted_witness:
  "map_of (workflowRooms in_wf1) ''wf1'' = Some room_wf1
   \<and> map_of (wf_users room_wf1) ''s1'' = Some presence_s1
   \<and> p_userId presence_s1 = ''u1''
   \<and> ''s1'' \<in> set (io_sockets in_wf1)
   \<and> presence_at (fst (handlePermissionChange ''u1'' ''ws1'' None False 9 in_wf1)) ''wf1'' ''s1''
       = Some (presence_s1\<lparr>p_role := None\<rparr>)
   \<and> ToSocket ''s1'' ''permission-changed''
        (JObj [(''workspaceId'', JStr ''ws1''), (''workflowId'', JStr ''wf1''),
               (''oldRole'', JStr ''admin''), (''newRole'', JNull),
               (''message'', JStr ''Your permissions have been updated''),
               (''timestamp'', JNum 9)])
       \<in> set (snd (handlePermissionChange ''u1'' ''ws1'' None False 9 in_wf1))
   \<and> snd (snd (createHttpHandler example_parse ''t'' 9 in_wf1
                  (post ''/api/permission-changed'' example_body)))
       = \<lparr>res_status = 200, res_body = JObj [(''success'', JBool True)]\<rparr>"
proof -
  have h1: "map_of (workflowRooms in_wf1) ''wf1'' = Some room_wf1"
    by (simp add: in_wf1_def)
  have h2: "map_of (wf_users room_wf1) ''s1'' = Some presence_s1"
    by (simp add: room_wf1_def)
  have h3: "p_userId presence_s1 = ''u1''"
    by (simp add: presence_s1_def)
  have h4: "''s1'' \<in> set (io_sockets in_wf1)"
    by (simp add: in_wf1_def)
  have h5: "wf_workflowId room_wf1 = ''wf1''" "p_role presence_s1 = Some ''admin''"
    by (simp_all add: room_wf1_def presence_s1_def)
  show ?thesis
    using h1 h2 h3 h4
      C9_null_role_is_accepted [OF h1 h2 h3, where workspaceId = "''ws1''" and now = 9
        and req = "post ''/api/permission-changed'' example_body" and parse = example_parse
        and n = example_notification and isoNow = "''t''"]
    by (simp add: h5 role_json_def post_def example_parse_def example_notification_def
        example_body_def)
qed

lemma cleanupUserFromRoom_frame [simp]:
  "io_sockets (cleanupUserFromRoom s w m) = io_sockets m"
  "io_rooms (cleanupUserFromRoom s w m) = io_rooms m"
  "workspaceRooms (cleanupUserFromRoom s w m) = workspaceRooms m"
  "socketToWorkspace (cleanupUserFromRoom s w m) = socketToWorkspace m"
  by (simp_all add: cleanupUserFromRoom_def Let_def split: option.splits)

lemma cleanupUserFromRoom_index:
  "map_of (socketToWorkflow (cleanupUserFromRoom s w m)) s'
     = (if s' = s then None else map_of (socketToWorkflow m) s')"
  "map_of (userSessions (cleanupUserFromRoom s w m)) s'
     = (if s' = s then None else map_of (userSessions m) s')"
  by (simp_all add: cleanupUserFromRoom_def Let_def delete_conv' split: option.splits)

lemma presence_at_cleanup_same:
  "presence_at (cleanupUserFromRoom s w m) w s = None"
  by (simp add: presence_at_def cleanupUserFromRoom_def Let_def delete_conv' update_conv'
      split: option.splits)

lemma presence_at_cleanup_None:
  "presence_at m k s' = None \<Longrightarrow> presence_at (cleanupUserFromRoom s w m) k s' = None"
  by (auto simp: presence_at_def cleanupUserFromRoom_def Let_def delete_conv' update_conv'
      split: option.splits if_splits)

lemma socket_leave_frame [simp]:
  "io_sockets (socket_leave s r m) = io_sockets m"
  "workflowRooms (socket_leave s r m) = workflowRooms m"
  "socketToWorkflow (socket_leave s r m) = socketToWorkflow m"
  "userSessions (socket_leave s r m) = userSessions m"
  "workspaceRooms (socket_leave s r m) = workspaceRooms m"
  "socketToWorkspace (socket_leave s r m) = socketToWorkspace m"
  "set (io_rooms (socket_leave s r m)) = set (io_rooms m) - {(s, r)}"
  by (auto simp: socket_leave_def)

lemma presence_at_socket_leave [simp]:
  "presence_at (socket_leave s r m) = presence_at m"
  by (simp add: presence_at_def fun_eq_iff)

lemma revokeSocket_fst:
  "fst (revokeSocket ws now wfid s acc)
     = cleanupUserFromRoom s wfid
         (if s \<in> set (io_sockets (fst acc)) then socket_leave s wfid (fst acc) else fst acc)"
  by (simp add: revokeSocket_def Let_def)

lemma revokeSocket_snd:
  "snd (revokeSocket ws now wfid s acc)
     = (if s \<in> set (io_sockets (fst acc))
        then snd acc @ [ToSocket s ''permission-revoked''
                          (JObj [(''workspaceId'', JStr ws),
                                 (''message'',
                                    JStr ''Your access to this workspace has been removed''),
                                 (''timestamp'', JNum now)])]
        else snd acc)"
  by (simp add: revokeSocket_def Let_def)

lemma permissionChangeRoom_revoke:
  "permissionChangeRoom u ws r True now entry acc
     = (let acc' = fold (\<lambda>e. revokeSocket ws now (wf_workflowId (snd entry)) (fst e))
                     (filter (\<lambda>e. p_userId (snd e) = u) (wf_users (snd entry))) acc
        in (fst acc', snd acc' @ broadcastPresenceUpdate (wf_workflowId (snd entry)) (fst acc')))"
  by (simp add: permissionChangeRoom_def Let_def)


text \<open>
  C3, as the code has it. When a permission change arrives with \<^verbatim>\<open>isRemoved = true\<close> for
  a user, every socket of that user that is in a workflow room (stored under its own
  id) is removed from that room and has its entries in \<^verbatim>\<open>socketToWorkflow\<close> and
  \<^verbatim>\<open>userSessions\<close> cleared; the table of connected sockets is as before, so no socket
  is closed; and a socket that is connected is sent \<^verbatim>\<open>permission-revoked\<close> and leaves
  the Socket.IO room of the workflow.
\<close>

theorem C3_revoked_user_leaves_workflow_room:
  assumes room: "map_of (workflowRooms m) key = Some room"
    and keyed: "wf_workflowId room = key"
    and pres: "map_of (wf_users room) socketId = Some presence"
    and user: "p_userId presence = userId"
  shows "presence_at (fst (handlePermissionChange userId workspaceId newRole True now m))
           key socketId = None
       \<and> map_of (socketToWorkflow
                   (fst (handlePermissionChange userId workspaceId newRole True now m)))
           socketId = None
       \<and> map_of (userSessions
                   (fst (handlePermissionChange userId workspaceId newRole True now m)))
           socketId = None
       \<and> io_sockets (fst (handlePermissionChange userId workspaceId newRole True now m))
           = io_sockets m
       \<and> (socketId \<in> set (io_sockets m) \<longrightarrow>
            ToSocket socketId ''permission-revoked''
              (JObj [(''workspaceId'', JStr workspaceId),
                     (''message'', JStr ''Your access to this workspace has been removed''),
                     (''timestamp'', JNum now)])
            \<in> set (snd (handlePermissionChange userId workspaceId newRole True now m))
            \<and> (socketId, key)
                \<notin> set (io_rooms
                         (fst (handlePermissionChange userId workspaceId newRole True now m))))"
proof -
  define E where "E = ToSocket socketId ''permission-revoked''
              (JObj [(''workspaceId'', JStr workspaceId),
                     (''message'', JStr ''Your access to this workspace has been removed''),
                     (''timestamp'', JNum now)])"
  define I where "I = (\<lambda>acc :: RoomManager \<times> emission list.
     io_sockets (fst acc) = io_sockets m)"
  define P where "P = (\<lambda>acc :: RoomManager \<times> emission list.
     presence_at (fst acc) key socketId = None
     \<and> map_of (socketToWorkflow (fst acc)) socketId = None
     \<and> map_of (userSessions (fst acc)) socketId = None
     \<and> (socketId \<in> set (io_sockets m) \<longrightarrow>
          E \<in> set (snd acc) \<and> (socketId, key) \<notin> set (io_rooms (fst acc))))"
  let ?sock = "\<lambda>wfid e. revokeSocket workspaceId now wfid (fst e)"
  let ?room = "permissionChangeRoom userId workspaceId newRole True now"
  have sockI: "I (?sock wfid e acc)" if "I acc" for wfid e acc
    using that by (simp add: I_def revokeSocket_fst)
  have sockP: "P (?sock wfid e acc)" if "I acc" "P acc" for wfid e acc
    using that
    by (auto simp: I_def P_def revokeSocket_fst revokeSocket_snd cleanupUserFromRoom_index
        presence_at_cleanup_None)
  have sockE: "P (?sock key (socketId, presence) acc)" if "I acc" for acc
    using that
    by (auto simp: I_def P_def E_def revokeSocket_fst revokeSocket_snd
        cleanupUserFromRoom_index presence_at_cleanup_same)
  have roomI: "I (?room entry acc)" if "I acc" for entry acc
  proof -
    have "I (fold (?sock (wf_workflowId (snd entry)))
               (filter (\<lambda>e. p_userId (snd e) = userId) (wf_users (snd entry))) acc)"
      by (rule fold_invariant [where Q = "\<lambda>_. True"]) (use that sockI in auto)
    then show ?thesis
      by (simp add: permissionChangeRoom_revoke Let_def I_def)
  qed
  have roomP: "P (?room entry acc)" if "I acc" "P acc" for entry acc
  proof -
    have "I (fold (?sock (wf_workflowId (snd entry)))
               (filter (\<lambda>e. p_userId (snd e) = userId) (wf_users (snd entry))) acc)
          \<and> P (fold (?sock (wf_workflowId (snd entry)))
               (filter (\<lambda>e. p_userId (snd e) = userId) (wf_users (snd entry))) acc)"
      by (rule fold_invariant [where Q = "\<lambda>_. True"]) (use that sockI sockP in auto)
    then show ?thesis
      by (simp add: permissionChangeRoom_revoke Let_def P_def)
  qed
  have in_users: "(socketId, presence)
      \<in> set (filter (\<lambda>e. p_userId (snd e) = userId) (wf_users room))"
    using pres user by (auto dest: map_of_SomeD)
  have roomE: "P (?room (key, room) acc)" if "I acc" for acc
  proof -
    have "P (fold (?sock key)
               (filter (\<lambda>e. p_userId (snd e) = userId) (wf_users room)) acc)"
      using in_users that sockI sockE sockP
      by (rule fold_establish [where I = I])
    then show ?thesis
      by (simp add: permissionChangeRoom_revoke Let_def P_def keyed)
  qed
  have in_rooms: "(key, room) \<in> set (affectedRooms userId m)"
    using room in_users by (auto intro: in_affectedRooms)
  have I0: "I (m, [])"
    by (simp add: I_def)
  have "P (fold ?room (affectedRooms userId m) (m, []))"
    using in_rooms I0 roomI roomE roomP
    by (rule fold_establish [where I = I])
  moreover have "I (fold ?room (affectedRooms userId m) (m, []))"
    by (rule fold_invariant [where Q = "\<lambda>_. True"]) (use I0 roomI in auto)
  moreover have "affectedRooms userId m \<noteq> []"
    using in_rooms by auto
  ultimately show ?thesis
    by (simp add: handlePermissionChange_def P_def E_def I_def)
qed

theorem C3_revoked_user_leaves_workflow_room_witness:
  "map_of (workflowRooms in_wf1) ''wf1'' = Some room_wf1
   \<and> wf_workflowId room_wf1 = ''wf1''
   \<and> map_of (wf_users room_wf1) ''s1'' = Some presence_s1
   \<and> p_userId presence_s1 = ''u1''
   \<and> ''s1'' \<in> set (io_sockets in_wf1)
   \<and> presence_at (fst (handlePermissionChange ''u1'' ''ws1'' None True 9 in_wf1)) ''wf1'' ''s1''
       = None
   \<and> map_of (socketToWorkflow (fst (handlePermissionChange ''u1'' ''ws1'' None True 9 in_wf1)))
        ''s1'' = None
   \<and> map_of (userSessions (fst (handlePermissionChange ''u1'' ''ws1'' None True 9 in_wf1)))
        ''s1'' = None
   \<and> io_sockets (fst (handlePermissionChange ''u1'' ''ws1'' None True 9 in_wf1))
       = io_sockets in_wf1
   \<and> ToSocket ''s1'' ''permission-revoked''
        (JObj [(''workspaceId'', JStr ''ws1''),
               (''message'', JStr ''Your access to this workspace has been removed''),
               (''timestamp'', JNum 9)])
       \<in> set (snd (handlePermissionChange ''u1'' ''ws1'' None True 9 in_wf1))
   \<and> (''s1'', ''wf1'')
       \<notin> set (io_rooms (fst (handlePermissionChange ''u1'' ''ws1'' None True 9 in_wf1)))"
proof -
  have h1: "map_of (workflowRooms in_wf1) ''wf1'' = Some room_wf1"
    by (simp add: in_wf1_def)
  have h2: "wf_workflowId room_wf1 = ''wf1''"
    by (simp add: room_wf1_def)
  have h3: "map_of (wf_users room_wf1) ''s1'' = Some presence_s1"
    by (simp add: room_wf1_def)
  have h4: "p_userId presence_s1 = ''u1''"
    by (simp add: presence_s1_def)
  have h5: "''s1'' \<in> set (io_sockets in_wf1)"
    by (simp add: in_wf1_def)
  show ?thesis
    using h1 h2 h3 h4 h5
      C3_revoked_user_leaves_workflow_room [OF h1 h2 h3 h4, where workspaceId = "''ws1''"
        and newRole = None and now = 9]
    by simp
qed

text \<open>
  C3 as the specification states it fails on the code. Socket \<open>s1\<close> of user \<open>u1\<close> is in
  the room of workflow \<open>wf1\<close> and in the room of workspace \<open>ws1\<close>. After the removal of
  \<open>u1\<close> from \<open>ws1\<close> the socket is still a member of the workspace room and still has
  its entry in \<^verbatim>\<open>socketToWorkspace\<close>.
\<close>

theorem C3_workspace_membership_is_kept:
  "map_of (socketToWorkspace (fst (handlePermissionChange ''u1'' ''ws1'' None True 9 in_wf1)))
     ''s1'' = Some (''ws1'', ''admin'')
   \<and> map_of (workspaceRooms (fst (handlePermissionChange ''u1'' ''ws1'' None True 9 in_wf1)))
       ''ws1''
     = Some \<lparr>ws_workspaceId = ''ws1'', ws_users = [''s1''], ws_lastModified = 1,
             ws_activeConnections = 1\<rparr>
   \<and> map_of (socketToWorkflow (fst (handlePermissionChange ''u1'' ''ws1'' None True 9 in_wf1)))
       ''s1'' = None"
  by (simp add: handlePermissionChange_def affectedRooms_def permissionChangeRoom_def
      revokeSocket_def cleanupUserFromRoom_def broadcastPresenceUpdate_def in_wf1_def
      room_wf1_def presence_s1_def presence_s2_def example_defs)

section \<open>Workflow deletion\<close>

lemma room_ids_cleanup: "room_ids (cleanupUserFromRoom s w m) \<subseteq> room_ids m"
proof (cases "map_of (workflowRooms m) w")
  case None
  then show ?thesis by (simp add: room_ids_def cleanupUserFromRoom_def)
next
  case (Some room)
  then have "w \<in> fst ` set (workflowRooms m)"
    by (force dest: map_of_SomeD)
  then show ?thesis
    using Some dom_delete_subset [of w "workflowRooms m"]
    by (auto simp: room_ids_def cleanupUserFromRoom_def Let_def dom_update)
qed

lemma room_ids_socket_leave [simp]: "room_ids (socket_leave s r m) = room_ids m"
  by (simp add: room_ids_def)

lemma room_ids_setPresenceRole [simp]: "room_ids (setPresenceRole k s r m) = room_ids m"
  by (simp add: room_ids_def setPresenceRole_def dom_map_entry)

lemma room_ids_permissionChangeRoom:
  "room_ids (fst (permissionChangeRoom u ws r isRemoved now entry acc)) \<subseteq> room_ids (fst acc)"
proof -
  let ?f = "(\<lambda>e a. if isRemoved then revokeSocket ws now (wf_workflowId (snd entry)) (fst e) a
                    else changeSocketRole ws r now (fst entry) (wf_workflowId (snd entry)) e a)"
  have "room_ids (fst (fold ?f xs acc)) \<subseteq> room_ids (fst acc)" for xs
  proof (rule fold_invariant [where Q = "\<lambda>_. True"
        and P = "\<lambda>a. room_ids (fst a) \<subseteq> room_ids (fst acc)"])
    fix x and a :: "RoomManager \<times> emission list"
    assume "room_ids (fst a) \<subseteq> room_ids (fst acc)"
    then show "room_ids (fst (?f x a)) \<subseteq> room_ids (fst acc)"
      using room_ids_cleanup [of "fst x" "wf_workflowId (snd entry)" "fst a"]
        room_ids_cleanup [of "fst x" "wf_workflowId (snd entry)"
          "socket_leave (fst x) (wf_workflowId (snd entry)) (fst a)"]
      by (auto simp: revokeSocket_fst)
  qed simp_all
  then show ?thesis
    by (simp add: permissionChangeRoom_def Let_def)
qed

lemma room_ids_handlePermissionChange:
  "room_ids (fst (handlePermissionChange u ws r isRemoved now m)) \<subseteq> room_ids m"
proof -
  have "room_ids (fst (fold (permissionChangeRoom u ws r isRemoved now) xs (m, []))) \<subseteq> room_ids m"
    for xs
  proof (rule fold_invariant [where Q = "\<lambda>_. True"
        and P = "\<lambda>a. room_ids (fst a) \<subseteq> room_ids m"])
    fix x and a :: "RoomManager \<times> emission list"
    assume "room_ids (fst a) \<subseteq> room_ids m"
    then show "room_ids (fst (permissionChangeRoom u ws r isRemoved now x a)) \<subseteq> room_ids m"
      using room_ids_permissionChangeRoom [of u ws r isRemoved now x a] by blast
  qed simp_all
  then show ?thesis
    by (simp add: handlePermissionChange_def)
qed

lemma room_ids_handleWorkflowDeletion:
  "room_ids (fst (handleWorkflowDeletion w now m)) \<subseteq> room_ids m"
proof (cases "map_of (workflowRooms m) w")
  case None
  then show ?thesis by (simp add: handleWorkflowDeletion_def)
next
  case (Some room)
  have "room_ids (fold (disconnectFromDeleted w) xs m) \<subseteq> room_ids m" for xs
  proof (rule fold_invariant [where Q = "\<lambda>_. True" and P = "\<lambda>a. room_ids a \<subseteq> room_ids m"])
    fix x a
    assume "room_ids a \<subseteq> room_ids m"
    then show "room_ids (disconnectFromDeleted w x a) \<subseteq> room_ids m"
      using room_ids_cleanup [of x w a] room_ids_cleanup [of x w "socket_leave x w a"]
      by (auto simp: disconnectFromDeleted_def)
  qed simp_all
  then have "room_ids (fold (disconnectFromDeleted w) (map fst (wf_users room)) m) \<subseteq> room_ids m" .
  moreover have "fst ` set (AList.delete w al) \<subseteq> fst ` set al" for al :: "(string \<times> WorkflowRoom) list"
    by (rule dom_delete_subset)
  ultimately show ?thesis
    using Some by (simp add: handleWorkflowDeletion_def Let_def room_ids_def) blast
qed

lemma room_ids_touch:
  "room_ids (fst (handleWorkflowUpdate w now m)) \<subseteq> room_ids m"
  "room_ids (fst (handleWorkflowRevert w t m)) \<subseteq> room_ids m"
  "room_ids (fst (handleCopilotWorkflowEdit w d now m)) \<subseteq> room_ids m"
  "room_ids (fst (handleWorkspaceResourceChange ws rt op data now m)) \<subseteq> room_ids m"
  by (auto simp: handleWorkflowUpdate_def handleWorkflowRevert_def handleCopilotWorkflowEdit_def
      handleWorkspaceResourceChange_def room_ids_def dom_update
      split: option.splits dest: map_of_Some_key)

lemma workflowRooms_workspace_ops [simp]:
  "workflowRooms (cleanupUserFromWorkspaceRoom s w m) = workflowRooms m"
  "workflowRooms (socket_join s r m) = workflowRooms m"
  by (simp_all add: cleanupUserFromWorkspaceRoom_def socket_join_def Let_def split: option.splits)

lemma workflowRooms_join_workspace [simp]:
  "workflowRooms (fst (join_workspace socket access ws now m)) = workflowRooms m"
  by (simp add: join_workspace_def Let_def split: access_outcome.splits option.splits)

lemma workflowRooms_leave_workspace [simp]:
  "workflowRooms (fst (leave_workspace socket ws m)) = workflowRooms m"
  by (simp add: leave_workspace_def)

lemma room_ids_createHttpHandler:
  "room_ids (fst (createHttpHandler parse isoNow now m req)) \<subseteq> room_ids m"
  using room_ids_handleWorkflowDeletion room_ids_touch room_ids_handlePermissionChange
  by (simp add: createHttpHandler_def post_endpoint_def split: option.splits)

lemma room_ids_leaveWorkflow:
  "room_ids (fst (leaveWorkflow conn m)) \<subseteq> room_ids m"
  using room_ids_cleanup by (simp add: leaveWorkflow_def Let_def split: option.splits)

lemma joinWorkflow_no_record:
  "map_of (ds_workflows store) workflowId = None \<Longrightarrow> joinWorkflow store conn workflowId now m = None"
  by (simp add: joinWorkflow_def resolveWorkflowAccess_def)

lemma room_ids_joinWorkflow:
  assumes "joinWorkflow store conn w now m = Some r"
  shows "room_ids (fst r) \<subseteq> insert w (room_ids m)"
proof -
  have "\<exists>room'. workflowRooms (fst r)
          = AList.update w room' (workflowRooms (fst (leaveWorkflow conn m)))"
    using assms
    by (auto simp: joinWorkflow_def Let_def split: access_outcome.splits if_splits)
  then obtain room' where eq: "workflowRooms (fst r)
          = AList.update w room' (workflowRooms (fst (leaveWorkflow conn m)))"
    by blast
  have "room_ids (fst r) = insert w (room_ids (fst (leaveWorkflow conn m)))"
    unfolding room_ids_def eq dom_update by simp
  then show ?thesis
    using room_ids_leaveWorkflow [of conn m] by auto
qed

lemma room_ids_step:
  assumes "map_of (ds_workflows store) w = None" and "w \<notin> room_ids m"
  shows "w \<notin> room_ids (step store parse ev m)"
proof (cases ev)
  case (JoinWorkflow conn w' now)
  show ?thesis
  proof (cases "joinWorkflow store conn w' now m")
    case None
    then show ?thesis using JoinWorkflow assms(2) by simp
  next
    case (Some r)
    then have "w' \<noteq> w"
      using assms(1) joinWorkflow_no_record by fastforce
    then show ?thesis
      using JoinWorkflow Some assms(2) room_ids_joinWorkflow [OF Some] by auto
  qed
next
  case (LeaveWorkflow conn)
  then show ?thesis using assms(2) room_ids_leaveWorkflow [of conn m] by auto
next
  case (JoinWorkspace socket access ws now)
  then show ?thesis using assms(2) by (simp add: room_ids_def)
next
  case (LeaveWorkspace socket ws)
  then show ?thesis using assms(2) by (simp add: room_ids_def)
next
  case (HttpRequest req isoNow now)
  then show ?thesis
    using assms(2) room_ids_createHttpHandler [of parse isoNow now m req] by auto
qed

lemma room_ids_run:
  assumes "map_of (ds_workflows store) w = None" and "w \<notin> room_ids m"
  shows "w \<notin> room_ids (run store parse events m)"
  unfolding run_def
  by (rule fold_invariant [where Q = "\<lambda>_. True"]) (use assms room_ids_step in auto)

lemma handleWorkflowDeletion_no_room:
  "workflowId \<notin> room_ids (fst (handleWorkflowDeletion workflowId now m))"
  by (auto simp: handleWorkflowDeletion_def Let_def room_ids_def delete_notin_dom
      map_of_eq_None_iff split: option.splits)


text \<open>The access check lets a user with a role join a workflow that has a durable
  record.\<close>

lemma joinWorkflow_with_record:
  assumes "map_of (ds_workflows store) workflowId = Some workspaceId"
    and "map_of (ds_permissions store) (conn_userId conn, workspaceId) = Some role"
  shows "joinWorkflow store conn workflowId now m \<noteq> None"
  using assms
  by (simp add: joinWorkflow_def resolveWorkflowAccess_def resolveWorkspaceAccess_def Let_def)

text \<open>
  C2. Once the deletion notice for a workflow has been handled, the registry has no room
  for it, and as long as the durable stores hold no record of the workflow this stays
  so through every sequence of later events (joins and leaves of workflows and
  workspaces, HTTP notifications), and every request to join that workflow is rejected.
  The registry of the source keeps no tombstone entry: the room is removed, and the
  rejection comes from the access check.
\<close>

theorem C2_no_join_after_deletion:
  assumes "map_of (ds_workflows store) workflowId = None"
  shows "map_of (workflowRooms (fst (handleWorkflowDeletion workflowId now m))) workflowId = None
       \<and> map_of (workflowRooms
                   (run store parse events (fst (handleWorkflowDeletion workflowId now m))))
           workflowId = None
       \<and> joinWorkflow store conn workflowId t
           (run store parse events (fst (handleWorkflowDeletion workflowId now m))) = None"
proof -
  let ?m0 = "fst (handleWorkflowDeletion workflowId now m)"
  have a: "workflowId \<notin> room_ids ?m0"
    by (rule handleWorkflowDeletion_no_room)
  have b: "workflowId \<notin> room_ids (run store parse events ?m0)"
    using assms a by (rule room_ids_run)
  show ?thesis
    using a b assms by (simp add: joinWorkflow_no_record map_of_eq_None_iff room_ids_def)
qed

theorem C2_no_join_after_deletion_witness:
  "map_of (ds_workflows store_without_wf1) ''wf1'' = None
   \<and> map_of (workflowRooms (fst (handleWorkflowDeletion ''wf1'' 9 in_wf1))) ''wf1'' = None
   \<and> map_of (workflowRooms
               (run store_without_wf1 example_parse
                  [JoinWorkflow conn_s1 ''wf2'' 10, JoinWorkflow conn_s1 ''wf1'' 11]
                  (fst (handleWorkflowDeletion ''wf1'' 9 in_wf1))))
       ''wf1'' = None
   \<and> joinWorkflow store_without_wf1 conn_s1 ''wf1'' 12
       (run store_without_wf1 example_parse
          [JoinWorkflow conn_s1 ''wf2'' 10, JoinWorkflow conn_s1 ''wf1'' 11]
          (fst (handleWorkflowDeletion ''wf1'' 9 in_wf1))) = None"
proof -
  have h: "map_of (ds_workflows store_without_wf1) ''wf1'' = None"
    by (simp add: store_without_wf1_def)
  show ?thesis
    using h
      C2_no_join_after_deletion [OF h, where now = 9 and m = in_wf1 and parse = example_parse
        and events = "[JoinWorkflow conn_s1 ''wf2'' 10, JoinWorkflow conn_s1 ''wf1'' 11]"
        and conn = conn_s1 and t = 12]
    by simp
qed

section \<open>The notifier of the application tier\<close>



end
